theory Spec2Isabelle
  imports Complex_Main
begin

section \<open>NumPy float64 values\<close>

text \<open>
  Every quantity of the wealth model is a NumPy \<open>float64\<close>. A finite value is
  modelled by the real number it stands for (rounding, overflow and the sign of zero
  are not modelled); the three special values of IEEE 754 are kept, because the
  program reaches them: division by zero gives an infinity or NaN together with a
  \<open>RuntimeWarning\<close>, never an exception, and \<open>np.power\<close> of a negative base with
  a fractional exponent gives NaN.
\<close>

datatype npfloat = Fin real | PInf | NInf | NaN

definition inf_of_sign :: "real \<Rightarrow> npfloat" where
  "inf_of_sign s = (if 0 < s then PInf else if s < 0 then NInf else NaN)"

fun np_neg :: "npfloat \<Rightarrow> npfloat" where
  "np_neg (Fin x) = Fin (- x)"
| "np_neg PInf = NInf"
| "np_neg NInf = PInf"
| "np_neg NaN = NaN"

fun np_add :: "npfloat \<Rightarrow> npfloat \<Rightarrow> npfloat" where
  "np_add (Fin x) (Fin y) = Fin (x + y)"
| "np_add NaN _ = NaN"
| "np_add _ NaN = NaN"
| "np_add PInf NInf = NaN"
| "np_add NInf PInf = NaN"
| "np_add PInf _ = PInf"
| "np_add _ PInf = PInf"
| "np_add NInf _ = NInf"
| "np_add _ NInf = NInf"

definition np_sub :: "npfloat \<Rightarrow> npfloat \<Rightarrow> npfloat" where
  "np_sub a b = np_add a (np_neg b)"

fun np_mul :: "npfloat \<Rightarrow> npfloat \<Rightarrow> npfloat" where
  "np_mul (Fin x) (Fin y) = Fin (x * y)"
| "np_mul NaN _ = NaN"
| "np_mul _ NaN = NaN"
| "np_mul PInf (Fin y) = inf_of_sign y"
| "np_mul (Fin x) PInf = inf_of_sign x"
| "np_mul NInf (Fin y) = inf_of_sign (- y)"
| "np_mul (Fin x) NInf = inf_of_sign (- x)"
| "np_mul PInf PInf = PInf"
| "np_mul NInf NInf = PInf"
| "np_mul PInf NInf = NInf"
| "np_mul NInf PInf = NInf"

fun np_div :: "npfloat \<Rightarrow> npfloat \<Rightarrow> npfloat" where
  "np_div (Fin x) (Fin y) = (if y = 0 then inf_of_sign x else Fin (x / y))"
| "np_div NaN _ = NaN"
| "np_div _ NaN = NaN"
| "np_div (Fin x) PInf = Fin 0"
| "np_div (Fin x) NInf = Fin 0"
| "np_div PInf (Fin y) = (if 0 \<le> y then PInf else NInf)"
| "np_div NInf (Fin y) = (if 0 \<le> y then NInf else PInf)"
| "np_div PInf PInf = NaN"
| "np_div PInf NInf = NaN"
| "np_div NInf PInf = NaN"
| "np_div NInf NInf = NaN"

fun np_lt :: "npfloat \<Rightarrow> npfloat \<Rightarrow> bool" where
  "np_lt (Fin x) (Fin y) = (x < y)"
| "np_lt NaN _ = False"
| "np_lt _ NaN = False"
| "np_lt _ NInf = False"
| "np_lt PInf _ = False"
| "np_lt NInf _ = True"
| "np_lt _ PInf = True"

fun np_le :: "npfloat \<Rightarrow> npfloat \<Rightarrow> bool" where
  "np_le (Fin x) (Fin y) = (x \<le> y)"
| "np_le NaN _ = False"
| "np_le _ NaN = False"
| "np_le NInf _ = True"
| "np_le _ PInf = True"
| "np_le _ NInf = False"
| "np_le PInf _ = False"

definition np_gt :: "npfloat \<Rightarrow> npfloat \<Rightarrow> bool" where
  "np_gt a b = np_lt b a"

definition np_ge :: "npfloat \<Rightarrow> npfloat \<Rightarrow> bool" where
  "np_ge a b = np_le b a"

text \<open>\<open>np.minimum\<close> and \<open>np.maximum\<close> propagate NaN.\<close>

definition np_minimum :: "npfloat \<Rightarrow> npfloat \<Rightarrow> npfloat" where
  "np_minimum a b = (if a = NaN \<or> b = NaN then NaN else if np_le a b then a else b)"

definition np_maximum :: "npfloat \<Rightarrow> npfloat \<Rightarrow> npfloat" where
  "np_maximum a b = (if a = NaN \<or> b = NaN then NaN else if np_le a b then b else a)"

definition is_integer :: "real \<Rightarrow> bool" where
  "is_integer a = (a = of_int \<lfloor>a\<rfloor>)"

definition is_odd_integer :: "real \<Rightarrow> bool" where
  "is_odd_integer a = (is_integer a \<and> odd \<lfloor>a\<rfloor>)"

text \<open>
  \<open>np.power\<close> on float64 is C's \<open>pow\<close>: anything to the power zero is one, one to
  any power is one, a negative base with a non-integer exponent is NaN, and zero to a
  negative power is infinite.
\<close>

fun np_power :: "npfloat \<Rightarrow> npfloat \<Rightarrow> npfloat" where
  "np_power (Fin x) (Fin a) =
     (if a = 0 \<or> x = 1 then Fin 1
      else if 0 < x then Fin (x powr a)
      else if x = 0 then (if 0 < a then Fin 0 else PInf)
      else if is_integer a then Fin (x powi \<lfloor>a\<rfloor>)
      else NaN)"
| "np_power NaN (Fin a) = (if a = 0 then Fin 1 else NaN)"
| "np_power (Fin x) NaN = (if x = 1 then Fin 1 else NaN)"
| "np_power (Fin x) PInf =
     (if \<bar>x\<bar> < 1 then Fin 0 else if \<bar>x\<bar> = 1 then Fin 1 else PInf)"
| "np_power (Fin x) NInf =
     (if \<bar>x\<bar> < 1 then PInf else if \<bar>x\<bar> = 1 then Fin 1 else Fin 0)"
| "np_power PInf (Fin a) = (if a = 0 then Fin 1 else if 0 < a then PInf else Fin 0)"
| "np_power NInf (Fin a) =
     (if a = 0 then Fin 1
      else if 0 < a then (if is_odd_integer a then NInf else PInf)
      else Fin 0)"
| "np_power PInf PInf = PInf"
| "np_power PInf NInf = Fin 0"
| "np_power NInf PInf = PInf"
| "np_power NInf NInf = Fin 0"
| "np_power NaN _ = NaN"
| "np_power _ NaN = NaN"

definition is_finite :: "npfloat \<Rightarrow> bool" where
  "is_finite v = (case v of Fin x \<Rightarrow> True | _ \<Rightarrow> False)"

definition in_unit_interval :: "npfloat \<Rightarrow> bool" where
  "in_unit_interval v = (case v of Fin x \<Rightarrow> 0 \<le> x \<and> x \<le> 1 | _ \<Rightarrow> False)"


section \<open>constants.py\<close>

definition BASE_INCOME :: real where "BASE_INCOME = 50000"
definition INCOME_GROWTH_RATE :: real where "INCOME_GROWTH_RATE = 2 / 100"
definition INCOME_VOLATILITY :: real where "INCOME_VOLATILITY = 3 / 10"
definition PARENT_WEALTH_EFFECT :: real where "PARENT_WEALTH_EFFECT = 2 / 10"
definition RETIREMENT_INCOME_RATIO :: real where "RETIREMENT_INCOME_RATIO = 4 / 10"

definition RETURN_MEAN :: real where "RETURN_MEAN = 4 / 100"
definition RETURN_VOLATILITY :: real where "RETURN_VOLATILITY = 5 / 100"

definition MPC_BASE :: real where "MPC_BASE = 6 / 10"
definition MPC_REFERENCE_INCOME :: real where "MPC_REFERENCE_INCOME = 35000"
definition MPC_ELASTICITY :: real where "MPC_ELASTICITY = - 7 / 10"
definition BORROWING_LIMIT_WEALTH_SHARE :: real where "BORROWING_LIMIT_WEALTH_SHARE = 1 / 10"

definition CHILD_START_AGE :: int where "CHILD_START_AGE = 25"
definition RETIREMENT_AGE :: int where "RETIREMENT_AGE = 65"
definition BEQUEST_AGE_MIN :: int where "BEQUEST_AGE_MIN = 30"
definition BEQUEST_AGE_MAX :: int where "BEQUEST_AGE_MAX = 60"
definition NO_BEQUEST_PROB :: real where "NO_BEQUEST_PROB = 4 / 10"

definition PARETO_SHAPE :: real where "PARETO_SHAPE = 2"
definition WEALTH_SCALE :: real where "WEALTH_SCALE = 20"

section \<open>mpc.py\<close>

text \<open>The exceptions the modelled code can raise.\<close>

datatype error = ValueError | IndexError | ZeroDivisionError

text \<open>
  Both functions start with \<open>income / reference_income\<close>. The parameters are plain
  Python numbers. The two definitions below take the income as a NumPy \<open>float64\<close>,
  which is what \<open>simulate_year\<close> passes during a run: the division is then NumPy's
  and a zero reference income gives an infinity or NaN.
\<close>

text \<open>
  \<open>calculate_mpc\<close>: the scaled income is floored at \<open>1e-6\<close> before the power.
\<close>

definition calculate_mpc :: "npfloat \<Rightarrow> real \<Rightarrow> real \<Rightarrow> real \<Rightarrow> npfloat" where
  "calculate_mpc income base_mpc reference_income elasticity =
     (let scaled_income = np_maximum (np_div income (Fin reference_income)) (Fin (1 / 1000000))
      in np_mul (Fin base_mpc) (np_power scaled_income (Fin elasticity)))"

text \<open>
  \<open>calculate_consumption\<close>: no floor on the scaled income, no check of \<open>alpha\<close>.
\<close>

definition calculate_consumption :: "npfloat \<Rightarrow> real \<Rightarrow> real \<Rightarrow> real \<Rightarrow> npfloat" where
  "calculate_consumption income base_mpc reference_income elasticity =
     (let alpha = elasticity + 1;
          scaled_income = np_div income (Fin reference_income)
      in np_div (np_mul (Fin (base_mpc * reference_income)) (np_power scaled_income (Fin alpha)))
                (Fin alpha))"




section \<open>The random source\<close>

text \<open>
  The program draws from NumPy's process-wide generator. The outcomes of the draws
  are inputs of the model: the \<open>i\<close>-th variate of each array drawn once per run
  (\<open>pareto.rvs\<close>, \<open>np.random.randint\<close>, \<open>np.random.random\<close>), and the
  successive outcomes of the scalar calls \<open>np.random.lognormal\<close> and
  \<open>np.random.normal\<close>, with the number of calls made so far as state.
\<close>

record random_source =
  pareto_rvs :: "nat \<Rightarrow> real"
  randint_draws :: "nat \<Rightarrow> int"
  random_draws :: "nat \<Rightarrow> real"
  lognormal_draws :: "nat \<Rightarrow> real"
  normal_draws :: "nat \<Rightarrow> real"
  lognormal_used :: nat
  normal_used :: nat

definition np_random_lognormal :: "random_source \<Rightarrow> real \<times> random_source" where
  "np_random_lognormal rs =
     (lognormal_draws rs (lognormal_used rs), rs\<lparr>lognormal_used := Suc (lognormal_used rs)\<rparr>)"

definition np_random_normal :: "random_source \<Rightarrow> real \<times> random_source" where
  "np_random_normal rs =
     (normal_draws rs (normal_used rs), rs\<lparr>normal_used := Suc (normal_used rs)\<rparr>)"


section \<open>simulation.py: Person\<close>

record person =
  age :: int
  wealth :: npfloat
  parent_wealth_rank :: "npfloat option"
  wealth_history :: "npfloat list"
  labor_income_history :: "npfloat list"
  capital_income_history :: "npfloat list"
  consumption_history :: "npfloat list"
  base_labor_income :: npfloat

record mpc_params =
  base_mpc :: real
  reference_income :: real
  elasticity :: real

definition Person_init :: "int \<Rightarrow> npfloat \<Rightarrow> npfloat option \<Rightarrow> person" where
  "Person_init age0 initial_wealth rank =
     \<lparr>age = age0,
      wealth = initial_wealth,
      parent_wealth_rank = rank,
      wealth_history = [initial_wealth],
      labor_income_history = [],
      capital_income_history = [],
      consumption_history = [],
      base_labor_income =
        (case rank of
           Some r \<Rightarrow> np_mul (Fin BASE_INCOME) (np_add (Fin 1) (np_mul (Fin PARENT_WEALTH_EFFECT) r))
         | None \<Rightarrow> Fin BASE_INCOME)\<rparr>"

text \<open>A retired person's income is deterministic: no draw is made.\<close>

definition get_labor_income :: "person \<Rightarrow> nat \<Rightarrow> random_source \<Rightarrow> npfloat \<times> random_source" where
  "get_labor_income p years_worked rs =
     (if RETIREMENT_AGE \<le> age p
      then (np_mul (base_labor_income p) (Fin RETIREMENT_INCOME_RATIO), rs)
      else
        (let growth_factor = (1 + INCOME_GROWTH_RATE) ^ years_worked;
             (z, rs') = np_random_lognormal rs
         in (np_mul (np_mul (base_labor_income p) (Fin growth_factor)) (Fin z), rs')))"

definition get_capital_income :: "person \<Rightarrow> random_source \<Rightarrow> npfloat \<times> random_source" where
  "get_capital_income p rs =
     (let (z, rs') = np_random_normal rs;
          return_factor = 1 + z
      in (np_mul (wealth p) (Fin (return_factor - 1)), rs'))"

definition default_mpc_params :: mpc_params where
  "default_mpc_params =
     \<lparr>base_mpc = MPC_BASE, reference_income = MPC_REFERENCE_INCOME, elasticity = MPC_ELASTICITY\<rparr>"

definition simulate_year ::
  "person \<Rightarrow> nat \<Rightarrow> mpc_params option \<Rightarrow> random_source \<Rightarrow> person \<times> random_source" where
  "simulate_year p years_worked mpc_params_arg rs =
     (let mp = (case mpc_params_arg of None \<Rightarrow> default_mpc_params | Some m \<Rightarrow> m);
          (labor_income, rs1) = get_labor_income p years_worked rs;
          (capital_income, rs2) = get_capital_income p rs1;
          total_income = np_add labor_income capital_income;
          raw_consumption =
            calculate_consumption total_income (base_mpc mp) (reference_income mp) (elasticity mp);
          borrowing_available =
            (if np_gt (wealth p) (Fin 0)
             then np_mul (wealth p) (Fin BORROWING_LIMIT_WEALTH_SHARE) else Fin 0);
          max_consumption = np_add total_income borrowing_available;
          consumption = np_minimum raw_consumption max_consumption;
          wealth' = np_add (wealth p) (np_sub total_income consumption)
      in (p\<lparr>wealth := wealth',
             wealth_history := wealth_history p @ [wealth'],
             labor_income_history := labor_income_history p @ [labor_income],
             capital_income_history := capital_income_history p @ [capital_income],
             consumption_history := consumption_history p @ [consumption],
             age := age p + 1\<rparr>, rs2))"


section \<open>simulation.py: run\_simulation\<close>

text \<open>
  \<open>scipy.stats.rankdata\<close> with its default method: the rank of a value is the
  average of the positions its ties occupy in the sorted array, counted from one;
  an array holding a NaN gets NaN ranks throughout.
\<close>

definition average_rank :: "npfloat list \<Rightarrow> npfloat \<Rightarrow> real" where
  "average_rank xs x =
     real (length (filter (\<lambda>y. np_lt y x) xs)) + (real (length (filter (\<lambda>y. y = x) xs)) + 1) / 2"

definition rankdata :: "npfloat list \<Rightarrow> npfloat list" where
  "rankdata xs =
     (if NaN \<in> set xs then map (\<lambda>x. NaN) xs else map (\<lambda>x. Fin (average_rank xs x)) xs)"

text \<open>Boolean-mask indexing \<open>a[mask]\<close> and boolean-mask assignment \<open>a[mask] = values\<close>.\<close>

definition mask_select :: "'a list \<Rightarrow> bool list \<Rightarrow> 'a list" where
  "mask_select xs msk = map fst (filter snd (zip xs msk))"

fun mask_assign :: "'a list \<Rightarrow> bool list \<Rightarrow> 'a list \<Rightarrow> 'a list" where
  "mask_assign (x # xs) (True # ms) (v # vs) = v # mask_assign xs ms vs"
| "mask_assign (x # xs) (False # ms) vs = x # mask_assign xs ms vs"
| "mask_assign xs ms vs = xs"

definition draw_parent_wealth :: "random_source \<Rightarrow> nat \<Rightarrow> npfloat list" where
  "draw_parent_wealth rs n = map (\<lambda>i. Fin (pareto_rvs rs i * WEALTH_SCALE * BASE_INCOME)) [0..<n]"

definition parent_ranks_of :: "npfloat list \<Rightarrow> npfloat list" where
  "parent_ranks_of parent_wealth =
     map (\<lambda>r. np_div r (Fin (real (length parent_wealth)))) (rankdata parent_wealth)"

definition make_children :: "npfloat list \<Rightarrow> person list" where
  "make_children parent_ranks =
     map (\<lambda>parent_rank. Person_init CHILD_START_AGE (Fin 0) (Some parent_rank)) parent_ranks"

definition draw_death_ages :: "random_source \<Rightarrow> nat \<Rightarrow> int list" where
  "draw_death_ages rs n = map (randint_draws rs) [0..<n]"

definition draw_bequests :: "random_source \<Rightarrow> nat \<Rightarrow> npfloat list" where
  "draw_bequests rs n =
     (let parent_wealth = draw_parent_wealth rs n;
          parent_ranks = parent_ranks_of parent_wealth;
          will_get_bequest = map (\<lambda>r. np_ge r (Fin NO_BEQUEST_PROB)) parent_ranks;
          bequest_shares = map (\<lambda>i. Fin (random_draws rs i)) [0..<n]
      in map (\<lambda>(w, pw, s). if w then np_mul pw s else Fin 0)
           (zip will_get_bequest (zip parent_wealth bequest_shares)))"

text \<open>The body of the inner loop: the bequest when the parent dies this year, then the year.\<close>

definition child_year ::
  "person \<Rightarrow> int \<Rightarrow> npfloat \<Rightarrow> nat \<Rightarrow> mpc_params option \<Rightarrow> random_source
     \<Rightarrow> person \<times> random_source" where
  "child_year child death_age bequest year mpc_params_arg rs =
     simulate_year
       (if age child = death_age then child\<lparr>wealth := np_add (wealth child) bequest\<rparr> else child)
       year mpc_params_arg rs"

fun children_loop ::
  "nat \<Rightarrow> person list \<Rightarrow> int list \<Rightarrow> npfloat list \<Rightarrow> nat \<Rightarrow> mpc_params option \<Rightarrow> random_source
     \<Rightarrow> person list \<times> random_source" where
  "children_loop i [] death_ages bequests year mpc_params_arg rs = ([], rs)"
| "children_loop i (child # rest) death_ages bequests year mpc_params_arg rs =
     (let (child', rs1) = child_year child (death_ages ! i) (bequests ! i) year mpc_params_arg rs;
          (rest', rs2) = children_loop (Suc i) rest death_ages bequests year mpc_params_arg rs1
      in (child' # rest', rs2))"

definition years_loop ::
  "nat \<Rightarrow> person list \<Rightarrow> int list \<Rightarrow> npfloat list \<Rightarrow> mpc_params option \<Rightarrow> random_source
     \<Rightarrow> person list \<times> random_source" where
  "years_loop n_years children death_ages bequests mpc_params_arg rs =
     fold (\<lambda>year (cs, r). children_loop 0 cs death_ages bequests year mpc_params_arg r)
       [0..<n_years] (children, rs)"

text \<open>The population after the first \<open>k\<close> years of a run with \<open>n\<close> people.\<close>

definition population_after ::
  "nat \<Rightarrow> nat \<Rightarrow> mpc_params option \<Rightarrow> random_source \<Rightarrow> person list" where
  "population_after k n mpc_params_arg rs =
     fst (years_loop k (make_children (parent_ranks_of (draw_parent_wealth rs n)))
            (draw_death_ages rs n) (draw_bequests rs n) mpc_params_arg rs)"

definition compute_bequest_ranks :: "npfloat list \<Rightarrow> nat \<Rightarrow> npfloat list" where
  "compute_bequest_ranks bequests n =
     (let bequest_ranks = replicate n (Fin 0);
          positive_bequest_mask = map (\<lambda>b. np_gt b (Fin 0)) bequests;
          n_positive = length (filter (\<lambda>m. m) positive_bequest_mask)
      in if 0 < n_positive
         then
           (let positive_ranks =
                  map (\<lambda>r. np_div r (Fin (real n_positive)))
                    (rankdata (mask_select bequests positive_bequest_mask))
            in mask_assign bequest_ranks positive_bequest_mask
                 (map (\<lambda>r. np_add (Fin (4 / 10)) (np_mul (Fin (6 / 10)) r)) positive_ranks))
         else bequest_ranks)"

definition compute_wealth_ranks :: "person list \<Rightarrow> int \<Rightarrow> npfloat list" where
  "compute_wealth_ranks children n_people =
     (let final_wealth = map (\<lambda>child. last (wealth_history child)) children
      in map (\<lambda>r. np_div (np_sub r (Fin 1)) (Fin (of_int (n_people - 1)))) (rankdata final_wealth))"

text \<open>
  \<open>run_simulation\<close>. A negative \<open>n_people\<close> makes the first array allocation raise
  \<open>ValueError\<close>; nothing else is checked.
\<close>

definition run_simulation ::
  "int \<Rightarrow> mpc_params option \<Rightarrow> random_source
     \<Rightarrow> error + (person list \<times> npfloat list \<times> npfloat list)" where
  "run_simulation n_people mpc_params_arg rs =
     (if n_people < 0 then Inl ValueError
      else
        (let n = nat n_people;
             bequests = draw_bequests rs n;
             n_years = 60;
             children = population_after n_years n mpc_params_arg rs;
             bequest_ranks = compute_bequest_ranks bequests n;
             wealth_ranks = compute_wealth_ranks children n_people
         in Inr (children, bequest_ranks, wealth_ranks)))"


section \<open>simulation.py: calculate\_rank\_statistics\<close>

definition np_linspace01 :: "nat \<Rightarrow> npfloat list" where
  "np_linspace01 n_bins =
     (if n_bins = 0 then [Fin 0] else map (\<lambda>i. Fin (real i / real n_bins)) [0..<n_bins + 1])"

definition np_sum :: "npfloat list \<Rightarrow> npfloat" where
  "np_sum xs = foldl np_add (Fin 0) xs"

definition np_mean :: "npfloat list \<Rightarrow> npfloat" where
  "np_mean xs = np_div (np_sum xs) (Fin (real (length xs)))"

fun np_sqrt :: "npfloat \<Rightarrow> npfloat" where
  "np_sqrt (Fin x) = (if 0 \<le> x then Fin (sqrt x) else NaN)"
| "np_sqrt PInf = PInf"
| "np_sqrt NInf = NaN"
| "np_sqrt NaN = NaN"

definition np_std :: "npfloat list \<Rightarrow> npfloat" where
  "np_std xs =
     (let m = np_mean xs
      in np_sqrt (np_mean (map (\<lambda>x. np_mul (np_sub x m) (np_sub x m)) xs)))"

definition bin_mask :: "npfloat list \<Rightarrow> nat \<Rightarrow> npfloat list \<Rightarrow> bool list" where
  "bin_mask bins i bequest_ranks =
     map (\<lambda>r. np_ge r (bins ! i) \<and> np_lt r (bins ! (i + 1))) bequest_ranks"

text \<open>
  One bin of the loop. Indexing \<open>wealth_ranks\<close> with a mask of another length raises
  \<open>IndexError\<close>; it is only evaluated for a bin that has members.
\<close>

definition bin_statistics ::
  "npfloat list \<Rightarrow> nat \<Rightarrow> npfloat list \<Rightarrow> npfloat list \<Rightarrow> error + (npfloat \<times> npfloat)" where
  "bin_statistics bins i bequest_ranks wealth_ranks =
     (let msk = bin_mask bins i bequest_ranks
      in if 0 < length (filter (\<lambda>m. m) msk)
         then (if length wealth_ranks = length msk
               then Inr (np_mean (mask_select wealth_ranks msk), np_std (mask_select wealth_ranks msk))
               else Inl IndexError)
         else Inr (NaN, NaN))"

fun bins_loop ::
  "npfloat list \<Rightarrow> nat list \<Rightarrow> npfloat list \<Rightarrow> npfloat list
     \<Rightarrow> error + (npfloat list \<times> npfloat list)" where
  "bins_loop bins [] bequest_ranks wealth_ranks = Inr ([], [])"
| "bins_loop bins (i # is) bequest_ranks wealth_ranks =
     (case bin_statistics bins i bequest_ranks wealth_ranks of
        Inl e \<Rightarrow> Inl e
      | Inr (m, s) \<Rightarrow>
          (case bins_loop bins is bequest_ranks wealth_ranks of
             Inl e \<Rightarrow> Inl e
           | Inr (mean_ranks, std_ranks) \<Rightarrow> Inr (m # mean_ranks, s # std_ranks)))"

definition calculate_rank_statistics ::
  "npfloat list \<Rightarrow> npfloat list \<Rightarrow> nat
     \<Rightarrow> error + (npfloat list \<times> npfloat list \<times> npfloat list)" where
  "calculate_rank_statistics bequest_ranks wealth_ranks n_bins =
     (let bins = np_linspace01 n_bins;
          bin_centers = map (\<lambda>(a, b). np_div (np_add a b) (Fin 2)) (zip (tl bins) (butlast bins))
      in case bins_loop bins [0..<n_bins] bequest_ranks wealth_ranks of
           Inl e \<Rightarrow> Inl e
         | Inr (mean_ranks, std_ranks) \<Rightarrow> Inr (bin_centers, mean_ranks, std_ranks))"


section \<open>The rank the specification describes\<close>

text \<open>
  Following the specification's words for the bequest ranks: the rank of a bequest
  among the positive bequests (tied bequests share the average of their positions),
  normalized by the number of positive bequests. It counts over the whole population;
  the program ranks the sub-array of positive bequests and scatters the result back.
\<close>

definition normalized_rank_among_positive :: "npfloat list \<Rightarrow> npfloat \<Rightarrow> real" where
  "normalized_rank_among_positive bequests b =
     (real (length (filter (\<lambda>y. np_gt y (Fin 0) \<and> np_lt y b) bequests))
        + (real (length (filter (\<lambda>y. np_gt y (Fin 0) \<and> y = b) bequests)) + 1) / 2)
     / real (length (filter (\<lambda>y. np_gt y (Fin 0)) bequests))"


section \<open>Example inputs\<close>

text \<open>
  A random source whose draws are all ordinary: distinct parent wealths, every parent
  dying when the child is 30, half of the wealth bequeathed, no income shock and the
  mean return every year. The second one has a bad year on the markets (a return of
  minus ten percent).
\<close>

definition rs_example :: random_source where
  "rs_example =
     \<lparr>pareto_rvs = (\<lambda>i. 1 + real i), randint_draws = (\<lambda>i. 30), random_draws = (\<lambda>i. 1 / 2),
      lognormal_draws = (\<lambda>i. 1), normal_draws = (\<lambda>i. 4 / 100),
      lognormal_used = 0, normal_used = 0\<rparr>"

definition rs_bad_year :: random_source where
  "rs_bad_year =
     \<lparr>pareto_rvs = (\<lambda>i. 1 + real i), randint_draws = (\<lambda>i. 30), random_draws = (\<lambda>i. 1 / 2),
      lognormal_draws = (\<lambda>i. 1), normal_draws = (\<lambda>i. - 1 / 10),
      lognormal_used = 0, normal_used = 0\<rparr>"

text \<open>A random source in which every bequest share drawn is zero.\<close>

definition rs_no_bequest :: random_source where
  "rs_no_bequest =
     \<lparr>pareto_rvs = (\<lambda>i. 1 + real i), randint_draws = (\<lambda>i. 30), random_draws = (\<lambda>i. 0),
      lognormal_draws = (\<lambda>i. 1), normal_draws = (\<lambda>i. 4 / 100),
      lognormal_used = 0, normal_used = 0\<rparr>"

text \<open>MPC parameters with elasticity zero: consumption is a fixed share of income.\<close>

definition mp_example :: mpc_params where
  "mp_example = \<lparr>base_mpc = 6 / 10, reference_income = 35000, elasticity = 0\<rparr>"



section \<open>Properties\<close>

lemmas constants_defs =
  BASE_INCOME_def INCOME_GROWTH_RATE_def INCOME_VOLATILITY_def PARENT_WEALTH_EFFECT_def
  RETIREMENT_INCOME_RATIO_def RETURN_MEAN_def RETURN_VOLATILITY_def MPC_BASE_def
  MPC_REFERENCE_INCOME_def MPC_ELASTICITY_def BORROWING_LIMIT_WEALTH_SHARE_def
  CHILD_START_AGE_def RETIREMENT_AGE_def BEQUEST_AGE_MIN_def BEQUEST_AGE_MAX_def
  NO_BEQUEST_PROB_def PARETO_SHAPE_def WEALTH_SCALE_def


lemmas year_defs = simulate_year_def get_labor_income_def get_capital_income_def
  np_random_lognormal_def np_random_normal_def

subsection \<open>The MPC and consumption functions\<close>


lemma calculate_consumption_positive:
  assumes "0 < x" "0 < r" "e \<noteq> - 1"
  shows "calculate_consumption (Fin x) b r e = Fin (b * r * (x / r) powr (e + 1) / (e + 1))"
  using assms by (auto simp add: calculate_consumption_def Let_def)

lemma scaled_power_over_alpha_mono:
  fixes s t a :: real
  assumes "0 < s" "s < t" "a \<noteq> 0"
  shows "s powr a / a < t powr a / a"
proof (cases "0 < a")
  case True
  then have "s powr a < t powr a"
    using assms by (simp add: powr_less_mono2)
  then show ?thesis
    using True by (simp add: divide_strict_right_mono)
next
  case False
  then have neg: "a < 0"
    using assms by simp
  then have "t powr a < s powr a"
    using assms by (simp add: powr_less_mono2_neg)
  then show ?thesis
    using neg by (simp add: divide_strict_right_mono_neg)
qed

lemma calculate_mpc_finite:
  assumes "0 < r"
  shows "is_finite (calculate_mpc (Fin x) b r e)"
proof (cases "x / r \<le> 1 / 1000000")
  case True
  then have "np_maximum (np_div (Fin x) (Fin r)) (Fin (1 / 1000000)) = Fin (1 / 1000000)"
    using assms by (simp add: np_maximum_def)
  then show ?thesis
    by (simp add: calculate_mpc_def is_finite_def)
next
  case False
  then have "0 < x / r"
    by linarith
  moreover have "np_maximum (np_div (Fin x) (Fin r)) (Fin (1 / 1000000)) = Fin (x / r)"
    using False assms by (simp add: np_maximum_def)
  ultimately show ?thesis
    by (simp add: calculate_mpc_def is_finite_def)
qed

text \<open>
  The closed form evaluated in exact real arithmetic is strictly increasing on
  positive incomes. Nothing follows from it for the values \<open>float64\<close> arithmetic
  returns, where rounding and underflow are not modelled here.
\<close>

lemma closed_form_increasing_on_reals:
  assumes "0 < b" "0 < r" "e \<noteq> - 1" "0 < x" "x < y"
  shows "np_lt (calculate_consumption (Fin x) b r e) (calculate_consumption (Fin y) b r e)"
proof -
  have scaled: "0 < x / r" "x / r < y / r"
    using assms by (simp_all add: divide_strict_right_mono)
  have "e + 1 \<noteq> 0"
    using assms by simp
  then have "(x / r) powr (e + 1) / (e + 1) < (y / r) powr (e + 1) / (e + 1)"
    using scaled by (rule scaled_power_over_alpha_mono[rotated 2])
  moreover have "0 < b * r"
    using assms by simp
  ultimately have
    "b * r * ((x / r) powr (e + 1) / (e + 1)) < b * r * ((y / r) powr (e + 1) / (e + 1))"
    by (simp only: mult_less_cancel_left_pos)
  moreover have "0 < y"
    using assms by simp
  ultimately show ?thesis
    using assms by (simp add: calculate_consumption_positive)
qed

text \<open>
  C3. The claim is that both evaluations stay finite at a non-positive income because
  of the floor \<open>1e-6\<close>. Only \<open>calculate_mpc\<close> has the floor. At the default
  parameters and an income of \<open>-1000\<close>, \<open>calculate_mpc\<close> returns a finite value,
  \<open>calculate_consumption\<close> returns NaN; and a year in which a person holding a
  million loses ten percent of it has a negative total income, a NaN consumption and
  a NaN wealth afterwards.
\<close>

theorem consumption_not_guarded_at_negative_income:
  "calculate_mpc (Fin (- 1000)) MPC_BASE MPC_REFERENCE_INCOME MPC_ELASTICITY
     = Fin (6 / 10 * (1 / 1000000) powr (- 7 / 10))
   \<and> calculate_consumption (Fin (- 1000)) MPC_BASE MPC_REFERENCE_INCOME MPC_ELASTICITY = NaN
   \<and> np_add (last (labor_income_history
                 (fst (simulate_year (Person_init 25 (Fin 1000000) None) 0 None rs_bad_year))))
             (last (capital_income_history
                 (fst (simulate_year (Person_init 25 (Fin 1000000) None) 0 None rs_bad_year))))
       = Fin (- 50000)
   \<and> last (consumption_history
             (fst (simulate_year (Person_init 25 (Fin 1000000) None) 0 None rs_bad_year))) = NaN
   \<and> wealth (fst (simulate_year (Person_init 25 (Fin 1000000) None) 0 None rs_bad_year)) = NaN"
  by (simp add: year_defs rs_bad_year_def Person_init_def default_mpc_params_def constants_defs
      calculate_consumption_def calculate_mpc_def np_maximum_def is_integer_def np_minimum_def
      np_gt_def np_sub_def Let_def)

subsection \<open>One simulated year\<close>

lemma np_minimum_not_gt: "\<not> np_gt (np_minimum a b) b"
  by (cases a; cases b) (simp_all add: np_minimum_def np_gt_def)

lemma np_minimum_le: "np_minimum a b \<noteq> NaN \<Longrightarrow> np_le (np_minimum a b) b"
  by (cases a; cases b) (simp_all add: np_minimum_def)

lemma simulate_year_recorded:
  "\<exists>li c. labor_income_history (fst (simulate_year p y m rs)) = labor_income_history p @ [li]
     \<and> capital_income_history (fst (simulate_year p y m rs))
         = capital_income_history p @ [np_mul (wealth p) (Fin (1 + normal_draws rs (normal_used rs) - 1))]
     \<and> consumption_history (fst (simulate_year p y m rs)) = consumption_history p @ [c]
     \<and> (\<exists>raw. c = np_minimum raw
            (np_add (np_add li (np_mul (wealth p) (Fin (1 + normal_draws rs (normal_used rs) - 1))))
               (if np_gt (wealth p) (Fin 0)
                then np_mul (wealth p) (Fin BORROWING_LIMIT_WEALTH_SHARE) else Fin 0)))"
  by (auto simp add: year_defs Let_def split: prod.splits if_splits)

lemma borrowing_available_as_max:
  "np_add (np_add li (np_mul w (Fin r))) (if np_gt w (Fin 0) then np_mul w (Fin s) else Fin 0)
   = np_add (np_add li (np_mul w (Fin r))) (np_mul (np_maximum w (Fin 0)) (Fin s))"
  by (cases w; cases li) (auto simp add: np_gt_def np_maximum_def inf_of_sign_def)

text \<open>
  C4. In every simulated year the recorded consumption does not exceed the year's
  total income plus \<open>max(wealth, 0) * BORROWING_LIMIT_WEALTH_SHARE\<close>, with the wealth
  the person has when \<open>simulate_year\<close> is entered; whenever the recorded consumption
  is a number it is at most that cap. It holds for every person, year index,
  parameter set and state of the random source, hence for every call the run makes.
\<close>

theorem consumption_within_borrowing_cap:
  "\<not> np_gt (last (consumption_history (fst (simulate_year p y m rs))))
       (np_add (np_add (last (labor_income_history (fst (simulate_year p y m rs))))
                       (last (capital_income_history (fst (simulate_year p y m rs)))))
               (np_mul (np_maximum (wealth p) (Fin 0)) (Fin BORROWING_LIMIT_WEALTH_SHARE)))
   \<and> (last (consumption_history (fst (simulate_year p y m rs))) \<noteq> NaN \<longrightarrow>
       np_le (last (consumption_history (fst (simulate_year p y m rs))))
         (np_add (np_add (last (labor_income_history (fst (simulate_year p y m rs))))
                         (last (capital_income_history (fst (simulate_year p y m rs)))))
                 (np_mul (np_maximum (wealth p) (Fin 0)) (Fin BORROWING_LIMIT_WEALTH_SHARE))))"
proof -
  obtain li c raw where rec:
    "labor_income_history (fst (simulate_year p y m rs)) = labor_income_history p @ [li]"
    "capital_income_history (fst (simulate_year p y m rs))
       = capital_income_history p @ [np_mul (wealth p) (Fin (1 + normal_draws rs (normal_used rs) - 1))]"
    "consumption_history (fst (simulate_year p y m rs)) = consumption_history p @ [c]"
    "c = np_minimum raw
           (np_add (np_add li (np_mul (wealth p) (Fin (1 + normal_draws rs (normal_used rs) - 1))))
              (if np_gt (wealth p) (Fin 0)
               then np_mul (wealth p) (Fin BORROWING_LIMIT_WEALTH_SHARE) else Fin 0))"
    using simulate_year_recorded[of p y m rs] by blast
  show ?thesis
    unfolding rec(1,2,3) last_snoc rec(4) borrowing_available_as_max
    using np_minimum_not_gt np_minimum_le by blast
qed

theorem consumption_within_borrowing_cap_witness:
  "last (consumption_history
      (fst (simulate_year (Person_init 25 (Fin 100000) None) 0 (Some mp_example) rs_example)))
     = Fin 32400
   \<and> np_le (last (consumption_history
        (fst (simulate_year (Person_init 25 (Fin 100000) None) 0 (Some mp_example) rs_example))))
       (np_add (np_add
          (last (labor_income_history
             (fst (simulate_year (Person_init 25 (Fin 100000) None) 0 (Some mp_example) rs_example))))
          (last (capital_income_history
             (fst (simulate_year (Person_init 25 (Fin 100000) None) 0 (Some mp_example) rs_example)))))
          (np_mul (np_maximum (wealth (Person_init 25 (Fin 100000) None)) (Fin 0))
             (Fin BORROWING_LIMIT_WEALTH_SHARE)))"
  using consumption_within_borrowing_cap
          [of "Person_init 25 (Fin 100000) None" 0 "Some mp_example" rs_example]
  by (simp add: year_defs rs_example_def mp_example_def Person_init_def constants_defs
      calculate_consumption_def np_minimum_def np_maximum_def np_gt_def np_sub_def Let_def)

lemma simulate_year_base_labor_income:
  "base_labor_income (fst (simulate_year p y m rs)) = base_labor_income p"
  by (simp add: year_defs Let_def split: prod.splits)

text \<open>
  C10. A person created without a parent wealth rank has \<open>BASE_INCOME\<close> as base labor
  income, a person created with rank \<open>r\<close> has
  \<open>BASE_INCOME * (1 + PARENT_WEALTH_EFFECT * r)\<close>, and neither a simulated year nor
  the bequest step of the run changes the base labor income afterwards.
\<close>

theorem base_labor_income_fixed_at_creation:
  "base_labor_income (Person_init a w None) = Fin BASE_INCOME
   \<and> base_labor_income (Person_init a w (Some (Fin r)))
       = Fin (BASE_INCOME * (1 + PARENT_WEALTH_EFFECT * r))
   \<and> base_labor_income (fst (simulate_year p y m rs)) = base_labor_income p
   \<and> base_labor_income (fst (child_year p d b y m rs)) = base_labor_income p"
  by (simp add: Person_init_def child_year_def simulate_year_base_labor_income)


subsection \<open>The simulation loop\<close>

lemma children_loop_length:
  "length (fst (children_loop i cs das bs y m rs)) = length cs"
  by (induction cs arbitrary: i rs) (simp_all add: Let_def case_prod_beta)

lemma children_loop_nth:
  "j < length cs \<Longrightarrow>
   \<exists>r. fst (children_loop i cs das bs y m rs) ! j
        = fst (child_year (cs ! j) (das ! (i + j)) (bs ! (i + j)) y m r)"
proof (induction cs arbitrary: i j rs)
  case Nil
  then show ?case by simp
next
  case (Cons c cs)
  obtain c' r1 where step: "child_year c (das ! i) (bs ! i) y m rs = (c', r1)"
    by (cases "child_year c (das ! i) (bs ! i) y m rs")
  obtain cs' r2 where rest: "children_loop (Suc i) cs das bs y m r1 = (cs', r2)"
    by (cases "children_loop (Suc i) cs das bs y m r1")
  show ?case
  proof (cases j)
    case 0
    then show ?thesis
      using step rest by (auto intro: exI[of _ rs])
  next
    case (Suc k)
    then have "k < length cs"
      using Cons.prems by simp
    from Cons.IH[OF this, of "Suc i" r1] obtain r where
      "fst (children_loop (Suc i) cs das bs y m r1) ! k
         = fst (child_year (cs ! k) (das ! (Suc i + k)) (bs ! (Suc i + k)) y m r)"
      by blast
    then show ?thesis
      using step rest Suc by (auto intro: exI[of _ r])
  qed
qed

lemma years_loop_0: "years_loop 0 cs das bs m rs = (cs, rs)"
  by (simp add: years_loop_def)

lemma years_loop_Suc:
  "years_loop (Suc k) cs das bs m rs =
     children_loop 0 (fst (years_loop k cs das bs m rs)) das bs k m
       (snd (years_loop k cs das bs m rs))"
  by (simp add: years_loop_def split: prod.splits)

lemma years_loop_length:
  "length (fst (years_loop k cs das bs m rs)) = length cs"
  by (induction k) (simp_all add: years_loop_0 years_loop_Suc children_loop_length)

lemma years_loop_nth_Suc:
  assumes "j < length cs"
  shows "\<exists>r. fst (years_loop (Suc k) cs das bs m rs) ! j
        = fst (child_year (fst (years_loop k cs das bs m rs) ! j) (das ! j) (bs ! j) k m r)"
  using children_loop_nth[of j "fst (years_loop k cs das bs m rs)" 0 das bs k m] assms
  by (simp add: years_loop_Suc years_loop_length)

lemma rankdata_length: "length (rankdata xs) = length xs"
  by (simp add: rankdata_def)

lemma initial_children_length:
  "length (make_children (parent_ranks_of (draw_parent_wealth rs n))) = n"
  by (simp add: make_children_def parent_ranks_of_def draw_parent_wealth_def rankdata_length)

lemma population_after_length: "length (population_after k n m rs) = n"
  by (simp add: population_after_def years_loop_length initial_children_length)

lemma population_after_0_nth:
  "i < n \<Longrightarrow> \<exists>r. population_after 0 n m rs ! i = Person_init CHILD_START_AGE (Fin 0) (Some r)"
  by (auto simp add: population_after_def years_loop_0 make_children_def parent_ranks_of_def
      draw_parent_wealth_def rankdata_length)

lemma population_after_Suc_nth:
  assumes "i < n"
  shows "\<exists>r. population_after (Suc k) n m rs ! i
        = fst (child_year (population_after k n m rs ! i)
                 (draw_death_ages rs n ! i) (draw_bequests rs n ! i) k m r)"
  unfolding population_after_def
  using assms by (intro years_loop_nth_Suc) (simp add: initial_children_length)

lemma child_year_age: "age (fst (child_year c d b y m rs)) = age c + 1"
  by (simp add: child_year_def simulate_year_def get_labor_income_def get_capital_income_def
      np_random_lognormal_def np_random_normal_def Let_def split: prod.splits)

lemma child_year_histories:
  "length (wealth_history (fst (child_year c d b y m rs))) = Suc (length (wealth_history c))"
  "length (labor_income_history (fst (child_year c d b y m rs))) = Suc (length (labor_income_history c))"
  by (simp_all add: child_year_def simulate_year_def get_labor_income_def get_capital_income_def
      np_random_lognormal_def np_random_normal_def Let_def split: prod.splits)

lemma population_age:
  "i < n \<Longrightarrow> age (population_after k n m rs ! i) = CHILD_START_AGE + int k"
proof (induction k)
  case 0
  then show ?case
    using population_after_0_nth[of i n m rs] by (auto simp add: Person_init_def)
next
  case (Suc k)
  then show ?case
    using population_after_Suc_nth[of i n k m rs] by (auto simp add: child_year_age)
qed

lemma population_histories:
  "i < n \<Longrightarrow> length (wealth_history (population_after k n m rs ! i)) = Suc k
     \<and> length (labor_income_history (population_after k n m rs ! i)) = k"
proof (induction k)
  case 0
  then show ?case
    using population_after_0_nth[of i n m rs] by (auto simp add: Person_init_def)
next
  case (Suc k)
  then show ?case
    using population_after_Suc_nth[of i n k m rs] by (auto simp add: child_year_histories)
qed

lemma run_simulation_result:
  "0 \<le> n \<Longrightarrow> run_simulation n m rs =
     Inr (population_after 60 (nat n) m rs,
          compute_bequest_ranks (draw_bequests rs (nat n)) (nat n),
          compute_wealth_ranks (population_after 60 (nat n) m rs) n)"
  by (simp add: run_simulation_def Let_def)

lemma simulate_year_histories:
  "length (wealth_history (fst (simulate_year p y m rs))) = Suc (length (wealth_history p))"
  "length (labor_income_history (fst (simulate_year p y m rs))) = Suc (length (labor_income_history p))"
  by (simp_all add: simulate_year_def get_labor_income_def get_capital_income_def
      np_random_lognormal_def np_random_normal_def Let_def split: prod.splits)




text \<open>
  C7. The wealth history is one entry longer than the labor-income history: at
  creation, after any simulated year that starts from a person with that property, and
  for every person of a run after each number \<open>k\<close> of years, when the labor-income
  history has \<open>k\<close> entries. The persons \<open>run_simulation\<close> returns have 60
  labor incomes and 61 wealth entries.
\<close>

theorem wealth_history_one_longer:
  "length (wealth_history (Person_init a w r)) = length (labor_income_history (Person_init a w r)) + 1
   \<and> (length (wealth_history p) = length (labor_income_history p) + 1 \<longrightarrow>
        length (wealth_history (fst (simulate_year p y m rs)))
          = length (labor_income_history (fst (simulate_year p y m rs))) + 1)
   \<and> (i < n \<longrightarrow>
        length (wealth_history (population_after k n m rs ! i))
          = length (labor_income_history (population_after k n m rs ! i)) + 1
        \<and> length (labor_income_history (population_after k n m rs ! i)) = k)
   \<and> (i < nat n_people \<longrightarrow>
        (\<exists>cs br wr. run_simulation n_people m rs = Inr (cs, br, wr)
           \<and> length (labor_income_history (cs ! i)) = 60
           \<and> length (wealth_history (cs ! i)) = 61))"
proof -
  have "i < nat n_people \<Longrightarrow> 0 \<le> n_people"
    by simp
  then show ?thesis
    using population_histories[of i n k m rs] population_histories[of i "nat n_people" 60 m rs]
    by (simp add: Person_init_def simulate_year_histories run_simulation_result)
qed

theorem wealth_history_one_longer_witness:
  "length (wealth_history (fst (simulate_year (Person_init 25 (Fin 0) None) 0 None rs_example)))
     = length (labor_income_history
         (fst (simulate_year (Person_init 25 (Fin 0) None) 0 None rs_example))) + 1
   \<and> length (wealth_history (population_after 60 1 None rs_example ! 0)) = 61
   \<and> (\<exists>cs br wr. run_simulation 1 None rs_example = Inr (cs, br, wr)
        \<and> length (labor_income_history (cs ! 0)) = 60
        \<and> length (wealth_history (cs ! 0)) = 61)"
  using wealth_history_one_longer
          [of 25 "Fin 0" None "Person_init 25 (Fin 0) None" 0 None rs_example 0 1 60 1]
  by (simp add: Person_init_def)

text \<open>
  C9. For person \<open>i\<close> of a run, the state at the start of year \<open>y\<close> is
  \<open>population_after y\<close> and its age is then \<open>CHILD_START_AGE + y\<close>. In a year in
  which that age differs from \<open>death_ages[i]\<close> the step to the next year is
  \<open>simulate_year\<close> on the unchanged person: nothing is added to the wealth. In a
  year in which it is equal the step is \<open>simulate_year\<close> on the person whose wealth
  has received \<open>bequests[i]\<close>, once. Two years in which it is equal are the same
  year, so of the 60 years at most one adds the bequest.
\<close>

theorem bequest_added_at_most_once:
  assumes "i < n"
  shows "(\<forall>y. age (population_after y n m rs ! i) = CHILD_START_AGE + int y)
    \<and> (\<forall>y. age (population_after y n m rs ! i) \<noteq> draw_death_ages rs n ! i \<longrightarrow>
          (\<exists>r. population_after (Suc y) n m rs ! i
             = fst (simulate_year (population_after y n m rs ! i) y m r)))
    \<and> (\<forall>y. age (population_after y n m rs ! i) = draw_death_ages rs n ! i \<longrightarrow>
          (\<exists>r. population_after (Suc y) n m rs ! i
             = fst (simulate_year
                 ((population_after y n m rs ! i)
                    \<lparr>wealth := np_add (wealth (population_after y n m rs ! i))
                                 (draw_bequests rs n ! i)\<rparr>) y m r)))
    \<and> (\<forall>y1 y2. age (population_after y1 n m rs ! i) = draw_death_ages rs n ! i
           \<and> age (population_after y2 n m rs ! i) = draw_death_ages rs n ! i \<longrightarrow> y1 = y2)
    \<and> card {y. y < 60 \<and> age (population_after y n m rs ! i) = draw_death_ages rs n ! i} \<le> 1"
proof -
  have ages: "age (population_after y n m rs ! i) = CHILD_START_AGE + int y" for y
    using assms by (rule population_age)
  have step: "\<exists>r. population_after (Suc y) n m rs ! i
        = fst (child_year (population_after y n m rs ! i)
                 (draw_death_ages rs n ! i) (draw_bequests rs n ! i) y m r)" for y
    using assms by (rule population_after_Suc_nth)
  have plain: "\<exists>r. population_after (Suc y) n m rs ! i
        = fst (simulate_year (population_after y n m rs ! i) y m r)"
    if "age (population_after y n m rs ! i) \<noteq> draw_death_ages rs n ! i" for y
    using step[of y] that by (simp add: child_year_def)
  have added: "\<exists>r. population_after (Suc y) n m rs ! i
        = fst (simulate_year
            ((population_after y n m rs ! i)
               \<lparr>wealth := np_add (wealth (population_after y n m rs ! i))
                            (draw_bequests rs n ! i)\<rparr>) y m r)"
    if "age (population_after y n m rs ! i) = draw_death_ages rs n ! i" for y
    using step[of y] that by (simp add: child_year_def)
  have same: "y1 = y2"
    if "age (population_after y1 n m rs ! i) = draw_death_ages rs n ! i"
      "age (population_after y2 n m rs ! i) = draw_death_ages rs n ! i" for y1 y2
    using that by (simp add: ages)
  have "{y. y < 60 \<and> age (population_after y n m rs ! i) = draw_death_ages rs n ! i}
          \<subseteq> {nat (draw_death_ages rs n ! i - CHILD_START_AGE)}"
    by (auto simp add: ages)
  then have "card {y. y < 60 \<and> age (population_after y n m rs ! i) = draw_death_ages rs n ! i}
          \<le> card {nat (draw_death_ages rs n ! i - CHILD_START_AGE)}"
    by (intro card_mono) simp_all
  then have once:
    "card {y. y < 60 \<and> age (population_after y n m rs ! i) = draw_death_ages rs n ! i} \<le> 1"
    by simp
  show ?thesis
    using ages plain added same once by blast
qed

lemma bequest_example_one: "draw_bequests rs_example 1 ! 0 = Fin 500000"
  by (simp add: draw_bequests_def draw_parent_wealth_def parent_ranks_of_def rankdata_def
      average_rank_def np_ge_def rs_example_def constants_defs Let_def)

theorem bequest_added_at_most_once_witness:
  "age (population_after 0 1 None rs_example ! 0) = 25
   \<and> (\<exists>r. population_after 1 1 None rs_example ! 0
         = fst (simulate_year (population_after 0 1 None rs_example ! 0) 0 None r))
   \<and> age (population_after 5 1 None rs_example ! 0) = draw_death_ages rs_example 1 ! 0
   \<and> (\<exists>r. population_after 6 1 None rs_example ! 0
         = fst (simulate_year
             ((population_after 5 1 None rs_example ! 0)
                \<lparr>wealth := np_add (wealth (population_after 5 1 None rs_example ! 0))
                             (Fin 500000)\<rparr>) 5 None r))
   \<and> card {y. y < 60 \<and> age (population_after y 1 None rs_example ! 0)
                          = draw_death_ages rs_example 1 ! 0} \<le> 1"
proof -
  note inst = bequest_added_at_most_once[OF zero_less_one, where m = None and rs = rs_example]
  have death: "draw_death_ages rs_example 1 ! 0 = CHILD_START_AGE + int 5"
    by (simp add: draw_death_ages_def rs_example_def CHILD_START_AGE_def)
  have age0: "age (population_after 0 1 None rs_example ! 0) = CHILD_START_AGE + int 0"
    using inst by blast
  have age5: "age (population_after 5 1 None rs_example ! 0) = CHILD_START_AGE + int 5"
    using inst by blast
  have "age (population_after 0 1 None rs_example ! 0) \<noteq> draw_death_ages rs_example 1 ! 0"
    unfolding age0 death by simp
  then have first: "\<exists>r. population_after (Suc 0) 1 None rs_example ! 0
        = fst (simulate_year (population_after 0 1 None rs_example ! 0) 0 None r)"
    using inst by blast
  have "age (population_after 5 1 None rs_example ! 0) = draw_death_ages rs_example 1 ! 0"
    by (simp only: age5 death)
  then have "\<exists>r. population_after (Suc 5) 1 None rs_example ! 0
        = fst (simulate_year
            ((population_after 5 1 None rs_example ! 0)
               \<lparr>wealth := np_add (wealth (population_after 5 1 None rs_example ! 0))
                            (draw_bequests rs_example 1 ! 0)\<rparr>) 5 None r)"
    using inst by blast
  then have "\<exists>r. population_after (Suc 5) 1 None rs_example ! 0
        = fst (simulate_year
            ((population_after 5 1 None rs_example ! 0)
               \<lparr>wealth := np_add (wealth (population_after 5 1 None rs_example ! 0))
                            (Fin 500000)\<rparr>) 5 None r)"
    by (simp only: bequest_example_one)
  moreover have "Suc 5 = 6"
    by simp
  ultimately have sixth: "\<exists>r. population_after 6 1 None rs_example ! 0
        = fst (simulate_year
            ((population_after 5 1 None rs_example ! 0)
               \<lparr>wealth := np_add (wealth (population_after 5 1 None rs_example ! 0))
                            (Fin 500000)\<rparr>) 5 None r)"
    by (simp only:)
  have once: "card {y. y < 60 \<and> age (population_after y 1 None rs_example ! 0)
                          = draw_death_ages rs_example 1 ! 0} \<le> 1"
    using inst by blast
  have "age (population_after 0 1 None rs_example ! 0) = 25"
    unfolding age0 by (simp add: CHILD_START_AGE_def)
  moreover have "age (population_after 5 1 None rs_example ! 0) = draw_death_ages rs_example 1 ! 0"
    by (simp only: age5 death)
  moreover have "\<exists>r. population_after 1 1 None rs_example ! 0
        = fst (simulate_year (population_after 0 1 None rs_example ! 0) 0 None r)"
    using first by (simp only: One_nat_def)
  ultimately show ?thesis
    using sixth once by blast
qed

subsection \<open>Rank statistics\<close>

text \<open>
  C2. The claim is that the last bin also takes a bequest rank of exactly \<open>1.0\<close>.
  Every bin, the last one too, is tested with \<open>bequest_ranks < bins[i + 1]\<close>. With
  two bins and the bequest ranks \<open>0\<close>, \<open>0.7\<close> and \<open>1.0\<close>, the first mask selects the
  first person, the second mask the second person, and the person of rank \<open>1.0\<close> is in
  neither: the statistics of the last bin are those of the second person alone.
\<close>

theorem top_rank_falls_in_no_bin:
  "bin_mask (np_linspace01 2) 0 [Fin 0, Fin (7 / 10), Fin 1] = [True, False, False]
   \<and> bin_mask (np_linspace01 2) 1 [Fin 0, Fin (7 / 10), Fin 1] = [False, True, False]
   \<and> calculate_rank_statistics [Fin 0, Fin (7 / 10), Fin 1] [Fin 0, Fin (1 / 2), Fin 1] 2
       = Inr ([Fin (1 / 4), Fin (3 / 4)], [Fin 0, Fin (1 / 2)], [Fin 0, Fin 0])"
  by (simp add: calculate_rank_statistics_def bin_statistics_def bin_mask_def np_linspace01_def
      np_ge_def mask_select_def np_mean_def np_std_def np_sum_def np_sub_def upt_rec Let_def)

subsection \<open>Average ranks and boolean masks\<close>

lemma np_lt_irrefl: "\<not> np_lt x x"
  by (cases x) simp_all

lemma filter_disjoint_length:
  "(\<And>x. P x \<Longrightarrow> \<not> Q x) \<Longrightarrow> length (filter P xs) + length (filter Q xs) \<le> length xs"
  by (induction xs) auto

lemma rank_arith_lower:
  fixes a b :: real
  assumes "1 \<le> b" "0 \<le> a"
  shows "1 \<le> a + (b + 1) / 2"
  using assms by (simp add: field_simps)

lemma rank_arith_upper:
  fixes a b n :: real
  assumes "a + b \<le> n" "1 \<le> b"
  shows "a + (b + 1) / 2 \<le> n"
  using assms by (simp add: field_simps)

lemma average_rank_lower:
  assumes "x \<in> set xs"
  shows "1 \<le> average_rank xs x"
proof -
  have "0 < length (filter (\<lambda>y. y = x) xs)"
    using assms by (simp add: filter_empty_conv)
  then have "1 \<le> real (length (filter (\<lambda>y. y = x) xs))"
    by (simp add: Suc_le_eq)
  moreover have "0 \<le> real (length (filter (\<lambda>y. np_lt y x) xs))"
    by simp
  ultimately show ?thesis
    unfolding average_rank_def by (rule rank_arith_lower)
qed

lemma average_rank_upper:
  assumes "x \<in> set xs"
  shows "average_rank xs x \<le> real (length xs)"
proof -
  have "0 < length (filter (\<lambda>y. y = x) xs)"
    using assms by (simp add: filter_empty_conv)
  then have one: "1 \<le> real (length (filter (\<lambda>y. y = x) xs))"
    by (simp add: Suc_le_eq)
  have "length (filter (\<lambda>y. np_lt y x) xs) + length (filter (\<lambda>y. y = x) xs) \<le> length xs"
    by (rule filter_disjoint_length) (auto simp add: np_lt_irrefl)
  then have "real (length (filter (\<lambda>y. np_lt y x) xs)) + real (length (filter (\<lambda>y. y = x) xs))
      \<le> real (length xs)"
    by linarith
  then show ?thesis
    using one unfolding average_rank_def by (rule rank_arith_upper)
qed

lemma mask_select_map: "mask_select xs (map P xs) = filter P xs"
  by (induction xs) (simp_all add: mask_select_def)

lemma mask_assign_map_nth:
  "length xs = length ys \<Longrightarrow> i < length xs \<Longrightarrow>
   mask_assign xs (map P ys) (map g (filter P ys)) ! i = (if P (ys ! i) then g (ys ! i) else xs ! i)"
proof (induction xs arbitrary: ys i)
  case Nil
  then show ?case by simp
next
  case (Cons x xs)
  then obtain y ys' where ys: "ys = y # ys'"
    by (cases ys) auto
  show ?case
    using Cons ys by (cases i) auto
qed

lemma mask_assign_map_length:
  "length xs = length ys \<Longrightarrow> length (mask_assign xs (map P ys) (map g (filter P ys))) = length xs"
proof (induction xs arbitrary: ys)
  case Nil
  then show ?case by simp
next
  case (Cons x xs)
  then obtain y ys' where ys: "ys = y # ys'"
    by (cases ys) auto
  show ?case
    using Cons ys by auto
qed

subsection \<open>Bequest ranks\<close>

lemma np_gt_NaN: "\<not> np_gt NaN x"
  by (cases x) (simp_all add: np_gt_def)

lemma positive_no_NaN: "NaN \<notin> set (filter (\<lambda>b. np_gt b (Fin 0)) bs)"
  by (simp add: np_gt_NaN)

lemma average_rank_among_positive:
  "average_rank (filter (\<lambda>y. np_gt y (Fin 0)) bs) b
     / real (length (filter (\<lambda>y. np_gt y (Fin 0)) bs))
   = normalized_rank_among_positive bs b"
  by (simp add: average_rank_def normalized_rank_among_positive_def)

lemma compute_bequest_ranks_eq:
  "compute_bequest_ranks bs n =
     mask_assign (replicate n (Fin 0)) (map (\<lambda>b. np_gt b (Fin 0)) bs)
       (map (\<lambda>b. Fin (4 / 10 + 6 / 10 * normalized_rank_among_positive bs b))
          (filter (\<lambda>b. np_gt b (Fin 0)) bs))"
proof -
  let ?P = "\<lambda>b. np_gt b (Fin 0)"
  have count: "filter (\<lambda>m. m) (map ?P bs) = map ?P (filter ?P bs)"
    by (simp add: filter_map comp_def)
  show ?thesis
  proof (cases "filter ?P bs = []")
    case True
    then have falses: "map ?P bs = map (\<lambda>b. False) bs"
      by (auto simp add: filter_empty_conv)
    have unchanged: "mask_assign xs (map (\<lambda>b. False) ys) [] = xs"
      for xs :: "npfloat list" and ys :: "npfloat list"
      by (induction xs arbitrary: ys; case_tac ys) simp_all
    have "compute_bequest_ranks bs n = replicate n (Fin 0)"
      by (simp add: compute_bequest_ranks_def Let_def count True)
    moreover have "mask_assign (replicate n (Fin 0)) (map ?P bs)
        (map (\<lambda>b. Fin (4 / 10 + 6 / 10 * normalized_rank_among_positive bs b)) (filter ?P bs))
        = replicate n (Fin 0)"
      by (simp only: True falses list.map unchanged)
    ultimately show ?thesis
      by (simp only:)
  next
    case False
    then have pos: "0 < length (filter ?P bs)"
      by simp
    have "rankdata (filter ?P bs) = map (\<lambda>x. Fin (average_rank (filter ?P bs) x)) (filter ?P bs)"
      by (simp only: rankdata_def positive_no_NaN if_False)
    then show ?thesis
      using pos
      by (simp add: compute_bequest_ranks_def Let_def count mask_select_map comp_def
          average_rank_among_positive)
  qed
qed

lemma compute_bequest_ranks_length:
  "length bs = n \<Longrightarrow> length (compute_bequest_ranks bs n) = n"
  by (simp add: compute_bequest_ranks_eq mask_assign_map_length)

lemma compute_bequest_ranks_nth:
  "length bs = n \<Longrightarrow> i < n \<Longrightarrow>
   compute_bequest_ranks bs n ! i =
     (if np_gt (bs ! i) (Fin 0)
      then Fin (4 / 10 + 6 / 10 * normalized_rank_among_positive bs (bs ! i)) else Fin 0)"
  by (simp add: compute_bequest_ranks_eq mask_assign_map_nth)

lemma normalized_rank_bounds:
  assumes "b \<in> set bs" "np_gt b (Fin 0)"
  shows "0 < normalized_rank_among_positive bs b \<and> normalized_rank_among_positive bs b \<le> 1"
proof -
  let ?ps = "filter (\<lambda>y. np_gt y (Fin 0)) bs"
  have mem: "b \<in> set ?ps"
    using assms by simp
  then have len: "0 < real (length ?ps)"
    by (simp add: filter_empty_conv) blast
  have "1 \<le> average_rank ?ps b" "average_rank ?ps b \<le> real (length ?ps)"
    using mem by (rule average_rank_lower, rule average_rank_upper)
  then have "0 < average_rank ?ps b / real (length ?ps)"
    "average_rank ?ps b / real (length ?ps) \<le> 1"
    using len by simp_all
  then show ?thesis
    by (simp only: average_rank_among_positive)
qed

lemma draw_bequests_length: "length (draw_bequests rs n) = n"
  by (simp add: draw_bequests_def draw_parent_wealth_def parent_ranks_of_def rankdata_length Let_def)

text \<open>
  C6. A run of \<open>n_people \<ge> 0\<close> people raises nothing and returns bequest ranks, one
  per person. A person with a positive bequest gets \<open>0.4 + 0.6 * r\<close>, where \<open>r\<close> is
  the rank of the bequest among the positive bequests divided by their number, with
  \<open>0 < r \<le> 1\<close>, so the rank lies between \<open>0.4\<close> and \<open>1\<close>; a person with a zero
  bequest gets \<open>0\<close>; and when nobody has a positive bequest the array is all zero.
\<close>

theorem bequest_ranks_rescaled:
  assumes "0 \<le> n_people"
  shows "\<exists>cs br wr. run_simulation n_people m rs = Inr (cs, br, wr)
    \<and> length br = nat n_people
    \<and> (\<forall>i. i < nat n_people \<and> np_gt (draw_bequests rs (nat n_people) ! i) (Fin 0) \<longrightarrow>
          br ! i = Fin (4 / 10 + 6 / 10 * normalized_rank_among_positive
                     (draw_bequests rs (nat n_people)) (draw_bequests rs (nat n_people) ! i))
          \<and> 0 < normalized_rank_among_positive
                     (draw_bequests rs (nat n_people)) (draw_bequests rs (nat n_people) ! i)
          \<and> normalized_rank_among_positive
                     (draw_bequests rs (nat n_people)) (draw_bequests rs (nat n_people) ! i) \<le> 1
          \<and> np_le (Fin (4 / 10)) (br ! i) \<and> np_le (br ! i) (Fin 1))
    \<and> (\<forall>i. i < nat n_people \<and> draw_bequests rs (nat n_people) ! i = Fin 0 \<longrightarrow> br ! i = Fin 0)
    \<and> ((\<forall>i. i < nat n_people \<longrightarrow> \<not> np_gt (draw_bequests rs (nat n_people) ! i) (Fin 0)) \<longrightarrow>
          br = replicate (nat n_people) (Fin 0))"
proof -
  let ?n = "nat n_people"
  let ?bs = "draw_bequests rs ?n"
  let ?br = "compute_bequest_ranks ?bs ?n"
  have len: "length ?bs = ?n"
    by (rule draw_bequests_length)
  have nth: "?br ! i = (if np_gt (?bs ! i) (Fin 0)
      then Fin (4 / 10 + 6 / 10 * normalized_rank_among_positive ?bs (?bs ! i)) else Fin 0)"
    if "i < ?n" for i
    using len that by (rule compute_bequest_ranks_nth)
  have brlen: "length ?br = ?n"
    using len by (rule compute_bequest_ranks_length)
  have positive: "?br ! i = Fin (4 / 10 + 6 / 10 * normalized_rank_among_positive ?bs (?bs ! i))
      \<and> 0 < normalized_rank_among_positive ?bs (?bs ! i)
      \<and> normalized_rank_among_positive ?bs (?bs ! i) \<le> 1
      \<and> np_le (Fin (4 / 10)) (?br ! i) \<and> np_le (?br ! i) (Fin 1)"
    if "i < ?n" "np_gt (?bs ! i) (Fin 0)" for i
  proof -
    have "?bs ! i \<in> set ?bs"
      using that len by simp
    then have "0 < normalized_rank_among_positive ?bs (?bs ! i)
        \<and> normalized_rank_among_positive ?bs (?bs ! i) \<le> 1"
      using that(2) by (rule normalized_rank_bounds)
    then show ?thesis
      using nth[OF that(1)] that(2) by simp
  qed
  have zero: "?br ! i = Fin 0" if "i < ?n" "?bs ! i = Fin 0" for i
    using nth[OF that(1)] that(2) by (simp add: np_gt_def)
  have none: "?br = replicate ?n (Fin 0)"
    if "\<forall>i. i < ?n \<longrightarrow> \<not> np_gt (?bs ! i) (Fin 0)"
    using that brlen nth by (intro nth_equalityI) simp_all
  have "run_simulation n_people m rs =
      Inr (population_after 60 ?n m rs, ?br, compute_wealth_ranks (population_after 60 ?n m rs) n_people)"
    using assms by (rule run_simulation_result)
  then show ?thesis
    using positive zero none brlen by blast
qed

lemma bequests_example:
  "draw_bequests rs_example 3 = [Fin 0, Fin 1000000, Fin 1500000]"
  by (simp add: draw_bequests_def draw_parent_wealth_def parent_ranks_of_def rankdata_def
      average_rank_def np_ge_def rs_example_def constants_defs upt_rec Let_def)

lemma bequests_none:
  "draw_bequests rs_no_bequest 3 = [Fin 0, Fin 0, Fin 0]"
  by (simp add: draw_bequests_def draw_parent_wealth_def parent_ranks_of_def rankdata_def
      average_rank_def np_ge_def rs_no_bequest_def constants_defs upt_rec Let_def)

theorem bequest_ranks_rescaled_witness:
  "(\<exists>cs br wr. run_simulation 3 None rs_example = Inr (cs, br, wr)
      \<and> br ! 0 = Fin 0 \<and> br ! 1 = Fin (7 / 10) \<and> br ! 2 = Fin 1)
   \<and> (\<exists>cs br wr. run_simulation 3 None rs_no_bequest = Inr (cs, br, wr)
      \<and> br = [Fin 0, Fin 0, Fin 0])"
proof -
  obtain cs br wr where run: "run_simulation 3 None rs_example = Inr (cs, br, wr)"
    and pos: "\<And>i. i < nat 3 \<Longrightarrow> np_gt (draw_bequests rs_example (nat 3) ! i) (Fin 0) \<Longrightarrow>
          br ! i = Fin (4 / 10 + 6 / 10 * normalized_rank_among_positive
                     (draw_bequests rs_example (nat 3)) (draw_bequests rs_example (nat 3) ! i))"
    and zero: "\<And>i. i < nat 3 \<Longrightarrow> draw_bequests rs_example (nat 3) ! i = Fin 0 \<Longrightarrow> br ! i = Fin 0"
    using bequest_ranks_rescaled[of 3 None rs_example] by force
  have "br ! 0 = Fin 0"
    using zero[of 0] by (simp add: bequests_example)
  moreover have "br ! 1 = Fin (7 / 10)"
    using pos[of 1] by (simp add: bequests_example np_gt_def normalized_rank_among_positive_def)
  moreover have "br ! 2 = Fin 1"
    using pos[of 2] by (simp add: bequests_example np_gt_def normalized_rank_among_positive_def)
  ultimately have first: "\<exists>cs br wr. run_simulation 3 None rs_example = Inr (cs, br, wr)
      \<and> br ! 0 = Fin 0 \<and> br ! 1 = Fin (7 / 10) \<and> br ! 2 = Fin 1"
    using run by blast
  obtain cs' br' wr' where run': "run_simulation 3 None rs_no_bequest = Inr (cs', br', wr')"
    and none: "(\<forall>i. i < nat 3 \<longrightarrow> \<not> np_gt (draw_bequests rs_no_bequest (nat 3) ! i) (Fin 0)) \<Longrightarrow>
          br' = replicate (nat 3) (Fin 0)"
    using bequest_ranks_rescaled[of 3 None rs_no_bequest] by force
  have "\<not> np_gt (draw_bequests rs_no_bequest (nat 3) ! i) (Fin 0)" if "i < nat 3" for i
  proof -
    have "i = 0 \<or> i = 1 \<or> i = 2"
      using that by auto
    then show ?thesis
      by (auto simp add: bequests_none np_gt_def)
  qed
  then have "br' = replicate (nat 3) (Fin 0)"
    using none by blast
  then have "br' = [Fin 0, Fin 0, Fin 0]"
    by (simp add: numeral_3_eq_3)
  then show ?thesis
    using first run' by blast
qed

subsection \<open>Wealth ranks and the shape of the result\<close>

lemma is_finite_iff: "is_finite v \<longleftrightarrow> (\<exists>x. v = Fin x)"
  by (cases v) (simp_all add: is_finite_def)

lemma compute_wealth_ranks_length: "length (compute_wealth_ranks cs n) = length cs"
  by (simp add: compute_wealth_ranks_def rankdata_length Let_def)

lemma wealth_rank_in_unit:
  fixes r :: real
  assumes "1 \<le> r" "r \<le> real k" "2 \<le> n" "k = nat n"
  shows "in_unit_interval (np_div (np_sub (Fin r) (Fin 1)) (Fin (of_int (n - 1))))"
proof -
  have n: "real k = of_int n" "(0::real) < of_int n - 1"
    using assms by simp_all
  then have "0 \<le> (r - 1) / (of_int n - 1)" "(r - 1) / (of_int n - 1) \<le> 1"
    using assms by simp_all
  then show ?thesis
    using n by (simp add: np_sub_def in_unit_interval_def)
qed

lemma compute_wealth_ranks_unit:
  assumes "2 \<le> n" "length cs = nat n" "NaN \<notin> set (map (\<lambda>c. last (wealth_history c)) cs)"
  shows "list_all in_unit_interval (compute_wealth_ranks cs n)"
proof -
  let ?fw = "map (\<lambda>c. last (wealth_history c)) cs"
  have ranks: "rankdata ?fw = map (\<lambda>x. Fin (average_rank ?fw x)) ?fw"
    using assms(3) by (simp only: rankdata_def if_False)
  have "in_unit_interval (np_div (np_sub (Fin (average_rank ?fw x)) (Fin 1)) (Fin (of_int (n - 1))))"
    if "x \<in> set ?fw" for x
  proof (rule wealth_rank_in_unit)
    show "1 \<le> average_rank ?fw x"
      using that by (rule average_rank_lower)
    show "average_rank ?fw x \<le> real (length ?fw)"
      using that by (rule average_rank_upper)
    show "2 \<le> n"
      by (rule assms(1))
    show "length ?fw = nat n"
      using assms(2) by simp
  qed
  then show ?thesis
    unfolding compute_wealth_ranks_def Let_def ranks by (auto simp add: list_all_iff)
qed

lemma compute_wealth_ranks_single: "compute_wealth_ranks [c] 1 = [NaN]"
  by (cases "last (wealth_history c)")
    (simp_all add: compute_wealth_ranks_def rankdata_def average_rank_def np_sub_def inf_of_sign_def)

lemma compute_bequest_ranks_unit:
  assumes "length bs = n"
  shows "list_all in_unit_interval (compute_bequest_ranks bs n)"
proof -
  have "in_unit_interval (compute_bequest_ranks bs n ! i)" if "i < n" for i
  proof (cases "np_gt (bs ! i) (Fin 0)")
    case True
    have "bs ! i \<in> set bs"
      using that assms by simp
    then have "0 < normalized_rank_among_positive bs (bs ! i)
        \<and> normalized_rank_among_positive bs (bs ! i) \<le> 1"
      using True by (rule normalized_rank_bounds)
    then show ?thesis
      using True that assms by (simp add: compute_bequest_ranks_nth in_unit_interval_def)
  next
    case False
    then show ?thesis
      using that assms by (simp add: compute_bequest_ranks_nth in_unit_interval_def)
  qed
  then show ?thesis
    using assms by (simp add: list_all_length compute_bequest_ranks_length)
qed

text \<open>
  C5 (as the code has it). For every population size \<open>P \<ge> 1\<close> the run returns
  \<open>P\<close> persons and two arrays of length \<open>P\<close>, and every bequest rank lies in
  \<open>[0, 1]\<close>. The wealth ranks lie in \<open>[0, 1]\<close> when \<open>P \<ge> 2\<close> and no final wealth is
  NaN; for \<open>P = 1\<close> the one wealth rank is \<open>0 / 0\<close>, NaN.
\<close>

theorem run_simulation_output_shape:
  assumes "1 \<le> n_people"
  shows "\<exists>cs br wr. run_simulation n_people m rs = Inr (cs, br, wr)
    \<and> length cs = nat n_people \<and> length br = nat n_people \<and> length wr = nat n_people
    \<and> list_all in_unit_interval br
    \<and> (2 \<le> n_people \<and> NaN \<notin> set (map (\<lambda>c. last (wealth_history c)) cs) \<longrightarrow>
         list_all in_unit_interval wr)
    \<and> (n_people = 1 \<longrightarrow> wr = [NaN])"
proof -
  let ?n = "nat n_people"
  let ?cs = "population_after 60 ?n m rs"
  let ?br = "compute_bequest_ranks (draw_bequests rs ?n) ?n"
  let ?wr = "compute_wealth_ranks ?cs n_people"
  have run: "run_simulation n_people m rs = Inr (?cs, ?br, ?wr)"
    using assms by (intro run_simulation_result) simp
  have cs: "length ?cs = ?n"
    by (rule population_after_length)
  have br: "length ?br = ?n"
    by (intro compute_bequest_ranks_length draw_bequests_length)
  have wr: "length ?wr = ?n"
    by (simp add: compute_wealth_ranks_length cs)
  have br_unit: "list_all in_unit_interval ?br"
    by (intro compute_bequest_ranks_unit draw_bequests_length)
  have wr_unit: "list_all in_unit_interval ?wr"
    if "2 \<le> n_people" "NaN \<notin> set (map (\<lambda>c. last (wealth_history c)) ?cs)"
    using that(1) cs that(2) by (rule compute_wealth_ranks_unit)
  have single: "?wr = [NaN]" if "n_people = 1"
  proof -
    have "length ?cs = Suc 0"
      using cs that by simp
    then obtain c where "?cs = [c]"
      by (auto simp add: length_Suc_conv)
    then show ?thesis
      using that by (simp add: compute_wealth_ranks_single)
  qed
  show ?thesis
    using run cs br wr br_unit wr_unit single by blast
qed

text \<open>
  C5 (as stated) fails for a population of one: the wealth rank is
  \<open>(1 - 1) / (1 - 1)\<close>, which is NaN and not a value of \<open>[0, 1]\<close>.
\<close>

theorem single_person_wealth_rank_is_nan:
  "\<exists>cs br wr. run_simulation 1 None rs_example = Inr (cs, br, wr)
     \<and> wr = [NaN] \<and> \<not> list_all in_unit_interval wr"
proof -
  obtain c where "population_after 60 (nat 1) None rs_example = [c]"
    using population_after_length[of 60 "nat 1" None rs_example]
    by (cases "population_after 60 (nat 1) None rs_example") simp_all
  then have "run_simulation 1 None rs_example
      = Inr ([c], compute_bequest_ranks (draw_bequests rs_example (nat 1)) (nat 1), [NaN])"
    by (simp add: run_simulation_result compute_wealth_ranks_single)
  moreover have "\<not> list_all in_unit_interval [NaN]"
    by (simp add: in_unit_interval_def)
  ultimately show ?thesis
    by blast
qed

subsection \<open>Runs that stay finite\<close>

text \<open>
  With elasticity zero the consumption is a multiple of the income, and a run with
  such parameters and a non-zero reference income never produces an infinity or a NaN.
\<close>

lemma consumption_finite_at_elasticity_zero:
  "r \<noteq> 0 \<Longrightarrow> is_finite (calculate_consumption (Fin t) b r 0)"
  by (simp add: calculate_consumption_def is_finite_def is_integer_def)

lemma np_minimum_finite: "is_finite a \<Longrightarrow> is_finite b \<Longrightarrow> is_finite (np_minimum a b)"
  by (auto simp add: is_finite_iff np_minimum_def)

lemma child_year_finite:
  assumes "is_finite (wealth c)" "is_finite (base_labor_income c)" "is_finite b"
    "elasticity mp = 0" "reference_income mp \<noteq> 0"
  shows "is_finite (wealth (fst (child_year c d b y (Some mp) rs)))
    \<and> is_finite (base_labor_income (fst (child_year c d b y (Some mp) rs)))
    \<and> last (wealth_history (fst (child_year c d b y (Some mp) rs)))
        = wealth (fst (child_year c d b y (Some mp) rs))"
proof -
  obtain w bl q where fin: "wealth c = Fin w" "base_labor_income c = Fin bl" "b = Fin q"
    using assms by (auto simp add: is_finite_iff)
  have raw: "\<exists>v. calculate_consumption (Fin t) (base_mpc mp) (reference_income mp) (elasticity mp) = Fin v"
    for t
    using consumption_finite_at_elasticity_zero[of "reference_income mp" t "base_mpc mp"] assms
    by (simp add: is_finite_iff)
  have step: "is_finite (wealth (fst (simulate_year p y (Some mp) rs)))
      \<and> is_finite (base_labor_income (fst (simulate_year p y (Some mp) rs)))
      \<and> last (wealth_history (fst (simulate_year p y (Some mp) rs)))
          = wealth (fst (simulate_year p y (Some mp) rs))"
    if p: "wealth p = Fin u" "base_labor_income p = Fin bl" for p u
  proof -
    have "\<exists>li r1. get_labor_income p y rs = (Fin li, r1)"
      using p by (simp add: get_labor_income_def np_random_lognormal_def Let_def)
    then obtain li r1 where li: "get_labor_income p y rs = (Fin li, r1)"
      by blast
    have "\<exists>ci r2. get_capital_income p r1 = (Fin ci, r2)"
      using p by (simp add: get_capital_income_def np_random_normal_def Let_def)
    then obtain ci r2 where ci: "get_capital_income p r1 = (Fin ci, r2)"
      by blast
    obtain v where v: "calculate_consumption (Fin (li + ci)) (base_mpc mp) (reference_income mp)
        (elasticity mp) = Fin v"
      using raw by blast
    show ?thesis
      using p li ci v
      by (auto simp add: simulate_year_def Let_def is_finite_def np_minimum_def np_sub_def np_gt_def)
  qed
  show ?thesis
    using fin step[of "c\<lparr>wealth := Fin (w + q)\<rparr>" "w + q"] step[of c w]
    by (simp add: child_year_def)
qed

lemma parent_ranks_finite:
  assumes "i < n"
  shows "is_finite (parent_ranks_of (draw_parent_wealth rs n) ! i)"
proof -
  have "NaN \<notin> set (draw_parent_wealth rs n)"
    by (auto simp add: draw_parent_wealth_def)
  then have "rankdata (draw_parent_wealth rs n)
      = map (\<lambda>x. Fin (average_rank (draw_parent_wealth rs n) x)) (draw_parent_wealth rs n)"
    by (simp only: rankdata_def if_False)
  moreover have "length (draw_parent_wealth rs n) = n"
    by (simp add: draw_parent_wealth_def)
  ultimately show ?thesis
    using assms by (simp add: parent_ranks_of_def is_finite_def)
qed

lemma draw_bequests_finite:
  assumes "i < n"
  shows "is_finite (draw_bequests rs n ! i)"
  using assms
  by (simp add: draw_bequests_def draw_parent_wealth_def parent_ranks_of_def rankdata_length
      Let_def is_finite_def)

lemma population_after_0_nth_eq:
  "i < n \<Longrightarrow> population_after 0 n m rs ! i
     = Person_init CHILD_START_AGE (Fin 0) (Some (parent_ranks_of (draw_parent_wealth rs n) ! i))"
  by (simp add: population_after_def years_loop_0 make_children_def parent_ranks_of_def
      draw_parent_wealth_def rankdata_length)

lemma population_finite:
  assumes "i < n" "elasticity mp = 0" "reference_income mp \<noteq> 0"
  shows "is_finite (wealth (population_after k n (Some mp) rs ! i))
    \<and> is_finite (base_labor_income (population_after k n (Some mp) rs ! i))
    \<and> last (wealth_history (population_after k n (Some mp) rs ! i))
        = wealth (population_after k n (Some mp) rs ! i)"
proof (induction k)
  case 0
  obtain r where "parent_ranks_of (draw_parent_wealth rs n) ! i = Fin r"
    using parent_ranks_finite[OF assms(1), of rs] by (auto simp add: is_finite_iff)
  then show ?case
    using assms(1) by (simp add: population_after_0_nth_eq Person_init_def is_finite_def)
next
  case (Suc k)
  obtain r where "population_after (Suc k) n (Some mp) rs ! i
        = fst (child_year (population_after k n (Some mp) rs ! i)
                 (draw_death_ages rs n ! i) (draw_bequests rs n ! i) k (Some mp) r)"
    using population_after_Suc_nth[OF assms(1), of k "Some mp" rs] by blast
  then show ?case
    using Suc child_year_finite[OF _ _ draw_bequests_finite[OF assms(1)] assms(2,3)]
    by simp
qed

lemma final_wealth_not_nan:
  assumes "elasticity mp = 0" "reference_income mp \<noteq> 0"
  shows "NaN \<notin> set (map (\<lambda>c. last (wealth_history c)) (population_after k n (Some mp) rs))"
proof
  assume "NaN \<in> set (map (\<lambda>c. last (wealth_history c)) (population_after k n (Some mp) rs))"
  then obtain i where i: "i < n"
    and nan: "last (wealth_history (population_after k n (Some mp) rs ! i)) = NaN"
    by (auto simp add: in_set_conv_nth population_after_length)
  then show False
    using population_finite[OF i assms, of k rs] by (simp add: is_finite_def)
qed

theorem run_simulation_output_shape_witness:
  "(\<exists>cs br wr. run_simulation 2 (Some mp_example) rs_example = Inr (cs, br, wr)
      \<and> length cs = 2 \<and> length br = 2 \<and> length wr = 2
      \<and> list_all in_unit_interval br \<and> list_all in_unit_interval wr)
   \<and> (\<exists>cs br wr. run_simulation 1 (Some mp_example) rs_example = Inr (cs, br, wr)
      \<and> length cs = 1 \<and> length br = 1 \<and> list_all in_unit_interval br \<and> wr = [NaN])"
proof -
  obtain cs br wr where run: "run_simulation 2 (Some mp_example) rs_example = Inr (cs, br, wr)"
    and shape: "length cs = nat 2" "length br = nat 2" "length wr = nat 2"
      "list_all in_unit_interval br"
    and ranks: "(2::int) \<le> 2 \<and> NaN \<notin> set (map (\<lambda>c. last (wealth_history c)) cs)
        \<Longrightarrow> list_all in_unit_interval wr"
    using run_simulation_output_shape[of 2 "Some mp_example" rs_example] by force
  have cs: "cs = population_after 60 (nat 2) (Some mp_example) rs_example"
    using run by (simp add: run_simulation_result)
  have "NaN \<notin> set (map (\<lambda>c. last (wealth_history c)) cs)"
    unfolding cs by (rule final_wealth_not_nan) (simp_all add: mp_example_def)
  then have "list_all in_unit_interval wr"
    using ranks by simp
  then have two: "\<exists>cs br wr. run_simulation 2 (Some mp_example) rs_example = Inr (cs, br, wr)
      \<and> length cs = 2 \<and> length br = 2 \<and> length wr = 2
      \<and> list_all in_unit_interval br \<and> list_all in_unit_interval wr"
    using run shape by simp
  have "\<exists>cs br wr. run_simulation 1 (Some mp_example) rs_example = Inr (cs, br, wr)
      \<and> length cs = 1 \<and> length br = 1 \<and> list_all in_unit_interval br \<and> wr = [NaN]"
    using run_simulation_output_shape[of 1 "Some mp_example" rs_example] by force
  then show ?thesis
    using two by blast
qed

end
